theory Spec2Isabelle
  imports
    Main
    "HOL-Library.AList"
    "HOL-Library.Char_ord"
    "HOL-Library.List_Lexorder"
    "HOL-Library.Option_ord"
    "HOL-Library.Multiset"
begin

section \<open>Announcements router: data model\<close>

text \<open>
  The module \<^verbatim>\<open>src/backend/routers/announcements.py\<close> works on Python dicts that the
  document store delivers. A field value of an announcement is a string or \<^verbatim>\<open>None\<close>;
  the entry \<^verbatim>\<open>"_id"\<close> holds the store's identifier (an \<^verbatim>\<open>ObjectId\<close>) and is kept
  apart from the other entries: \<open>doc_id d = None\<close> says that the dict has no
  \<^verbatim>\<open>"_id"\<close> key. The other entries are an association list in insertion order, as a
  Python dict keeps them.

  Strings are compared with the lexicographic order on character lists, which is the
  order of Python's \<^verbatim>\<open><\<close> on \<^verbatim>\<open>str\<close> and of the store's string comparison.
\<close>

datatype val = Str string | Null

record 'oid document =
  doc_id :: "'oid option"
  entries :: "(string \<times> val) list"

text \<open>\<^verbatim>\<open>d.get(k)\<close>: the value under \<open>k\<close>, \<^verbatim>\<open>None\<close> when the key is missing.\<close>

definition dict_get :: "'oid document \<Rightarrow> string \<Rightarrow> val" where
  "dict_get d k = (case map_of (entries d) k of Some v \<Rightarrow> v | None \<Rightarrow> Null)"

text \<open>Python truthiness of a field value: \<^verbatim>\<open>None\<close> and the empty string are false.\<close>

fun truthy :: "val \<Rightarrow> bool" where
  "truthy Null = False"
| "truthy (Str s) = (s \<noteq> [])"

text \<open>
  \<^verbatim>\<open>v > t\<close> for a field value and a string. The source evaluates it only behind
  \<^verbatim>\<open>start_date and ...\<close>, so never on \<^verbatim>\<open>None\<close>.
\<close>

fun py_gt :: "val \<Rightarrow> string \<Rightarrow> bool" where
  "py_gt (Str s) t = (t < s)"
| "py_gt Null t = False"

datatype error = HTTPException (status_code: nat) (detail: string)

section \<open>The document store\<close>

text \<open>
  The handlers reach the store through two collection objects, \<^verbatim>\<open>announcements_collection\<close>
  and \<^verbatim>\<open>teachers_collection\<close>, imported from the module \<^verbatim>\<open>database\<close>. In the model each is
  an argument of the handler: the announcements as the list of their documents in the
  store's natural order, the teachers as a lookup by username. The operations of the
  store's driver that the handlers call:
  \<^item> \<^verbatim>\<open>find({"expiration_date": {"$gte": t}})\<close> keeps the documents whose
    \<^verbatim>\<open>expiration_date\<close> is a string not below \<open>t\<close>;
  \<^item> \<^verbatim>\<open>find().sort("expiration_date", -1)\<close> orders by that field, descending, a missing
    or null field last;
  \<^item> \<^verbatim>\<open>insert_one\<close> stores the document under a newly generated identifier, which is
    an input of the model;
  \<^item> \<^verbatim>\<open>update_one\<close> with \<^verbatim>\<open>$set\<close>, \<^verbatim>\<open>delete_one\<close> and \<^verbatim>\<open>find_one\<close> address the first
    document with the given \<^verbatim>\<open>_id\<close>; \<^verbatim>\<open>$set\<close> overwrites an entry in place and appends
    a new one.
\<close>

definition gte_expiration :: "string \<Rightarrow> 'oid document \<Rightarrow> bool" where
  "gte_expiration t d =
     (case map_of (entries d) ''expiration_date'' of
        Some (Str s) \<Rightarrow> t \<le> s
      | _ \<Rightarrow> False)"

definition expiration_key :: "'oid document \<Rightarrow> string option" where
  "expiration_key d =
     (case map_of (entries d) ''expiration_date'' of
        Some (Str s) \<Rightarrow> Some s
      | _ \<Rightarrow> None)"

definition sort_expiration_desc :: "'oid document list \<Rightarrow> 'oid document list" where
  "sort_expiration_desc coll = rev (sort_key expiration_key coll)"

definition insert_one ::
  "'oid \<Rightarrow> 'oid document list \<Rightarrow> 'oid document \<Rightarrow> 'oid document list \<times> 'oid" where
  "insert_one generated coll d = (coll @ [d\<lparr>doc_id := Some generated\<rparr>], generated)"

definition set_fields :: "(string \<times> val) list \<Rightarrow> (string \<times> val) list \<Rightarrow> (string \<times> val) list" where
  "set_fields upd fs = fold (case_prod AList.update) upd fs"

fun update_one ::
  "'oid \<Rightarrow> (string \<times> val) list \<Rightarrow> 'oid document list \<Rightarrow> 'oid document list \<times> nat" where
  "update_one i upd [] = ([], 0)"
| "update_one i upd (d # ds) =
     (if doc_id d = Some i then (d\<lparr>entries := set_fields upd (entries d)\<rparr> # ds, 1)
      else (case update_one i upd ds of (ds', matched) \<Rightarrow> (d # ds', matched)))"

fun delete_one :: "'oid \<Rightarrow> 'oid document list \<Rightarrow> 'oid document list \<times> nat" where
  "delete_one i [] = ([], 0)"
| "delete_one i (d # ds) =
     (if doc_id d = Some i then (ds, 1)
      else (case delete_one i ds of (ds', deleted) \<Rightarrow> (d # ds', deleted)))"

definition find_one :: "'oid \<Rightarrow> 'oid document list \<Rightarrow> 'oid document option" where
  "find_one i coll = find (\<lambda>d. doc_id d = Some i) coll"

section \<open>The handlers\<close>

text \<open>
  Parameters that stand for the world outside the module:
  \<^item> \<open>str\<close>, \<open>ObjectId\<close>: the identifier's text form and its constructor from text
    (\<open>None\<close> when it raises \<^verbatim>\<open>InvalidId\<close>);
  \<^item> \<open>fromisoformat\<close>: \<^verbatim>\<open>datetime.fromisoformat\<close>, \<open>None\<close> when it raises
    \<^verbatim>\<open>ValueError\<close>;
  \<^item> \<open>teachers_collection\<close>: \<^verbatim>\<open>find_one({"_id": u})\<close> on the teachers;
  \<^item> \<open>current_time\<close>: the value of \<^verbatim>\<open>datetime.utcnow().isoformat()\<close> during the call;
  \<^item> \<open>generated\<close>: the identifier the driver generates for an insert;
  \<^item> \<open>driver_raises\<close>: the driver raises an exception in the single-record operation
    that \<^verbatim>\<open>update_announcement\<close> and \<^verbatim>\<open>delete_announcement\<close> wrap in \<^verbatim>\<open>try\<close>.
  A handler that writes returns the collection after the call beside its result.
\<close>

definition serialize_announcement :: "('oid \<Rightarrow> string) \<Rightarrow> 'oid document \<Rightarrow> 'oid document" where
  "serialize_announcement str announcement =
     (case doc_id announcement of
        Some i \<Rightarrow>
          \<lparr>doc_id = None, entries = AList.update ''id'' (Str (str i)) (entries announcement)\<rparr>
      | None \<Rightarrow> announcement)"

fun active_loop ::
  "('oid \<Rightarrow> string) \<Rightarrow> string \<Rightarrow> 'oid document list \<Rightarrow> 'oid document list" where
  "active_loop str current_time [] = []"
| "active_loop str current_time (announcement # rest) =
     (let start_date = dict_get announcement ''start_date'' in
      if truthy start_date \<and> py_gt start_date current_time
      then active_loop str current_time rest
      else serialize_announcement str announcement # active_loop str current_time rest)"

definition get_active_announcements ::
  "('oid \<Rightarrow> string) \<Rightarrow> string \<Rightarrow> 'oid document list \<Rightarrow> 'oid document list" where
  "get_active_announcements str current_time announcements_collection =
     active_loop str current_time
       (filter (gte_expiration current_time) announcements_collection)"

definition get_all_announcements ::
  "('oid \<Rightarrow> string) \<Rightarrow> (string \<rightharpoonup> 't) \<Rightarrow> 'oid document list \<Rightarrow> string option
     \<Rightarrow> error + 'oid document list" where
  "get_all_announcements str teachers_collection announcements_collection teacher_username =
     (case teacher_username of
        None \<Rightarrow> Inl (HTTPException 401 ''Authentication required for this action'')
      | Some u \<Rightarrow>
          if u = [] then Inl (HTTPException 401 ''Authentication required for this action'')
          else (case teachers_collection u of
                  None \<Rightarrow> Inl (HTTPException 401 ''Invalid teacher credentials'')
                | Some teacher \<Rightarrow>
                    Inr (map (serialize_announcement str)
                          (sort_expiration_desc announcements_collection))))"

text \<open>\<^verbatim>\<open>s.replace('Z', '+00:00')\<close>: every \<^verbatim>\<open>Z\<close> of the string is replaced.\<close>

definition replace_Z :: "string \<Rightarrow> string" where
  "replace_Z s = concat (map (\<lambda>c. if c = CHR ''Z'' then ''+00:00'' else [c]) s)"

text \<open>An optional string argument as a field value.\<close>

fun opt_val :: "string option \<Rightarrow> val" where
  "opt_val None = Null"
| "opt_val (Some s) = Str s"

definition create_announcement ::
  "(string \<Rightarrow> 'dt option) \<Rightarrow> ('oid \<Rightarrow> string) \<Rightarrow> (string \<rightharpoonup> 't) \<Rightarrow> string \<Rightarrow> 'oid
     \<Rightarrow> 'oid document list \<Rightarrow> string \<Rightarrow> string \<Rightarrow> string option \<Rightarrow> string option
     \<Rightarrow> (error + 'oid document) \<times> 'oid document list" where
  "create_announcement fromisoformat str teachers_collection current_time generated
     announcements_collection message expiration_date start_date teacher_username =
     (case teacher_username of
        None \<Rightarrow> (Inl (HTTPException 401 ''Authentication required for this action''),
                 announcements_collection)
      | Some u \<Rightarrow>
          if u = [] then
            (Inl (HTTPException 401 ''Authentication required for this action''),
             announcements_collection)
          else (case teachers_collection u of
            None \<Rightarrow> (Inl (HTTPException 401 ''Invalid teacher credentials''),
                     announcements_collection)
          | Some teacher \<Rightarrow>
              if fromisoformat (replace_Z expiration_date) = None then
                (Inl (HTTPException 400 ''Invalid expiration_date format. Use ISO format.''),
                 announcements_collection)
              else if (case start_date of
                         Some s \<Rightarrow> s \<noteq> [] \<and> fromisoformat (replace_Z s) = None
                       | None \<Rightarrow> False)
              then
                (Inl (HTTPException 400 ''Invalid start_date format. Use ISO format.''),
                 announcements_collection)
              else
                (let announcement_doc =
                       \<lparr>doc_id = None,
                        entries = [(''message'', Str message),
                                  (''expiration_date'', Str expiration_date),
                                  (''start_date'', opt_val start_date),
                                  (''created_by'', Str u),
                                  (''created_at'', Str current_time)]\<rparr>;
                     (coll', inserted_id) =
                       insert_one generated announcements_collection announcement_doc
                 in (Inr \<lparr>doc_id = None,
                          entries = AList.update ''id'' (Str (str inserted_id))
                                     (entries announcement_doc)\<rparr>,
                     coll'))))"

definition update_announcement ::
  "(string \<Rightarrow> 'dt option) \<Rightarrow> (string \<Rightarrow> 'oid option) \<Rightarrow> ('oid \<Rightarrow> string) \<Rightarrow> (string \<rightharpoonup> 't)
     \<Rightarrow> string \<Rightarrow> bool \<Rightarrow> 'oid document list
     \<Rightarrow> string \<Rightarrow> string \<Rightarrow> string \<Rightarrow> string option \<Rightarrow> string option
     \<Rightarrow> (error + 'oid document option) \<times> 'oid document list" where
  "update_announcement fromisoformat ObjectId str teachers_collection current_time
     driver_raises announcements_collection
     announcement_id message expiration_date start_date teacher_username =
     (case teacher_username of
        None \<Rightarrow> (Inl (HTTPException 401 ''Authentication required for this action''),
                 announcements_collection)
      | Some u \<Rightarrow>
          if u = [] then
            (Inl (HTTPException 401 ''Authentication required for this action''),
             announcements_collection)
          else (case teachers_collection u of
            None \<Rightarrow> (Inl (HTTPException 401 ''Invalid teacher credentials''),
                     announcements_collection)
          | Some teacher \<Rightarrow>
              if fromisoformat (replace_Z expiration_date) = None then
                (Inl (HTTPException 400 ''Invalid expiration_date format. Use ISO format.''),
                 announcements_collection)
              else if (case start_date of
                         Some s \<Rightarrow> s \<noteq> [] \<and> fromisoformat (replace_Z s) = None
                       | None \<Rightarrow> False)
              then
                (Inl (HTTPException 400 ''Invalid start_date format. Use ISO format.''),
                 announcements_collection)
              else (case ObjectId announcement_id of
                None \<Rightarrow> (Inl (HTTPException 400 ''Invalid announcement ID''),
                         announcements_collection)
              | Some i \<Rightarrow>
                  if driver_raises then
                    (Inl (HTTPException 400 ''Invalid announcement ID''),
                     announcements_collection)
                  else (case update_one i
                               [(''message'', Str message),
                                (''expiration_date'', Str expiration_date),
                                (''start_date'', opt_val start_date),
                                (''updated_by'', Str u),
                                (''updated_at'', Str current_time)]
                               announcements_collection of
                    (coll', matched_count) \<Rightarrow>
                      if matched_count = 0 then
                        (Inl (HTTPException 404 ''Announcement not found''), coll')
                      else
                        (Inr (map_option (serialize_announcement str) (find_one i coll')),
                         coll')))))"

definition delete_announcement ::
  "(string \<Rightarrow> 'oid option) \<Rightarrow> (string \<rightharpoonup> 't) \<Rightarrow> bool \<Rightarrow> 'oid document list
     \<Rightarrow> string \<Rightarrow> string option
     \<Rightarrow> (error + (string \<times> string) list) \<times> 'oid document list" where
  "delete_announcement ObjectId teachers_collection driver_raises announcements_collection
     announcement_id teacher_username =
     (case teacher_username of
        None \<Rightarrow> (Inl (HTTPException 401 ''Authentication required for this action''),
                 announcements_collection)
      | Some u \<Rightarrow>
          if u = [] then
            (Inl (HTTPException 401 ''Authentication required for this action''),
             announcements_collection)
          else (case teachers_collection u of
            None \<Rightarrow> (Inl (HTTPException 401 ''Invalid teacher credentials''),
                     announcements_collection)
          | Some teacher \<Rightarrow>
              (case ObjectId announcement_id of
                None \<Rightarrow> (Inl (HTTPException 400 ''Invalid announcement ID''),
                         announcements_collection)
              | Some i \<Rightarrow>
                  if driver_raises then
                    (Inl (HTTPException 400 ''Invalid announcement ID''),
                     announcements_collection)
                  else (case delete_one i announcements_collection of
                    (coll', deleted_count) \<Rightarrow>
                      if deleted_count = 0 then
                        (Inl (HTTPException 404 ''Announcement not found''), coll')
                      else
                        (Inr [(''message'', ''Announcement deleted successfully'')],
                         coll')))))"

section \<open>Responses\<close>

text \<open>
  The status of a route's response: the exception's code when the handler raises, the
  route's success code when it returns. \<^verbatim>\<open>@router.post(..., status_code=201)\<close> sets the
  success code of create; the other routes have the framework's default 200.
\<close>

datatype route = GET_active | GET_all | POST_create | PUT_update | DELETE_delete

fun success_code :: "route \<Rightarrow> nat" where
  "success_code POST_create = 201"
| "success_code r = 200"

fun http_status :: "route \<Rightarrow> error + 'a \<Rightarrow> nat" where
  "http_status r (Inl e) = status_code e"
| "http_status r (Inr v) = success_code r"

section \<open>Specification-side notions\<close>

text \<open>
  An active announcement in the words of the specification: the expiration date is not
  before the current time, and the start date is absent or not after it.
\<close>

definition is_active :: "string \<Rightarrow> 'oid document \<Rightarrow> bool" where
  "is_active now d =
     ((case map_of (entries d) ''expiration_date'' of
         Some (Str e) \<Rightarrow> now \<le> e
       | _ \<Rightarrow> False)
      \<and> (case dict_get d ''start_date'' of
            Null \<Rightarrow> True
          | Str s \<Rightarrow> s \<le> now))"

text \<open>What list-active must never return, read on a returned record.\<close>

definition expired :: "string \<Rightarrow> 'oid document \<Rightarrow> bool" where
  "expired now r =
     (case map_of (entries r) ''expiration_date'' of
        Some (Str e) \<Rightarrow> e < now
      | _ \<Rightarrow> False)"

definition not_yet_started :: "string \<Rightarrow> 'oid document \<Rightarrow> bool" where
  "not_yet_started now r =
     (case dict_get r ''start_date'' of
        Str s \<Rightarrow> now < s
      | Null \<Rightarrow> False)"

section \<open>Store invariant and sequences of calls\<close>

text \<open>The store keeps \<^verbatim>\<open>_id\<close> unique within a collection.\<close>

definition unique_ids :: "'oid document list \<Rightarrow> bool" where
  "unique_ids coll = distinct (map doc_id coll)"

text \<open>
  A writing call to the module with what the world supplies to it (the current time, the
  generated identifier, whether the driver raises) and the request's arguments;
  \<open>after_call\<close> is the collection it leaves, and a call touches the record \<open>i\<close> when it
  is an update or delete addressed to \<open>i\<close>.
\<close>

datatype 'oid call =
    Create_call string 'oid string string "string option" "string option"
  | Update_call string bool string string string "string option" "string option"
  | Delete_call bool string "string option"

fun after_call ::
  "(string \<Rightarrow> 'dt option) \<Rightarrow> (string \<Rightarrow> 'oid option) \<Rightarrow> ('oid \<Rightarrow> string) \<Rightarrow> (string \<rightharpoonup> 't)
     \<Rightarrow> 'oid call \<Rightarrow> 'oid document list \<Rightarrow> 'oid document list" where
  "after_call fromisoformat ObjectId str teachers
     (Create_call now generated message expiration_date start_date teacher_username) coll =
     snd (create_announcement fromisoformat str teachers now generated coll message
            expiration_date start_date teacher_username)"
| "after_call fromisoformat ObjectId str teachers
     (Update_call now driver_raises announcement_id message expiration_date start_date
        teacher_username) coll =
     snd (update_announcement fromisoformat ObjectId str teachers now driver_raises coll
            announcement_id message expiration_date start_date teacher_username)"
| "after_call fromisoformat ObjectId str teachers
     (Delete_call driver_raises announcement_id teacher_username) coll =
     snd (delete_announcement ObjectId teachers driver_raises coll announcement_id
            teacher_username)"

fun touches :: "(string \<Rightarrow> 'oid option) \<Rightarrow> 'oid \<Rightarrow> 'oid call \<Rightarrow> bool" where
  "touches ObjectId i (Create_call now generated message expiration_date start_date
     teacher_username) = False"
| "touches ObjectId i (Update_call now driver_raises announcement_id message expiration_date
     start_date teacher_username) = (ObjectId announcement_id = Some i)"
| "touches ObjectId i (Delete_call driver_raises announcement_id teacher_username) =
     (ObjectId announcement_id = Some i)"

section \<open>A concrete library for running the handlers\<close>

text \<open>
  The theorems below hold for every behaviour of \<open>str\<close>, \<open>ObjectId\<close> and
  \<open>fromisoformat\<close>. The closed examples run the handlers with the following instance:
  an identifier is its own text of 24 hexadecimal digits, and the date parser accepts
  the shapes \<^verbatim>\<open>YYYY-MM-DDTHH:MM:SS\<close> and \<^verbatim>\<open>YYYY-MM-DDTHH:MM:SS+HH:MM\<close> only.
\<close>

fun shape :: "string \<Rightarrow> string \<Rightarrow> bool" where
  "shape [] [] = True"
| "shape (p # ps) (c # cs) =
     ((if p = CHR ''d'' then c \<in> set ''0123456789'' else c = p) \<and> shape ps cs)"
| "shape ps cs = False"

definition hex_ObjectId :: "string \<Rightarrow> string option" where
  "hex_ObjectId s =
     (if length s = 24 \<and> list_all (\<lambda>c. c \<in> set ''0123456789abcdef'') s then Some s else None)"

definition hex_str :: "string \<Rightarrow> string" where
  "hex_str i = i"

definition basic_fromisoformat :: "string \<Rightarrow> unit option" where
  "basic_fromisoformat s =
     (if shape ''dddd-dd-ddTdd:dd:dd'' s \<or> shape ''dddd-dd-ddTdd:dd:dd+dd:dd'' s
      then Some () else None)"

definition staff :: "string \<rightharpoonup> unit" where
  "staff = [''mchen'' \<mapsto> ()]"

text \<open>A small collection: one active, one expired and one not yet started announcement.\<close>

definition board :: "string document list" where
  "board =
     [\<lparr>doc_id = Some ''507f1f77bcf86cd799439011'',
       entries = [(''message'', Str ''Exams''),
                  (''expiration_date'', Str ''2030-01-01T00:00:00''),
                  (''start_date'', Null)]\<rparr>,
      \<lparr>doc_id = Some ''507f1f77bcf86cd799439012'',
       entries = [(''message'', Str ''Fair''),
                  (''expiration_date'', Str ''2020-06-30T00:00:00''),
                  (''start_date'', Null)]\<rparr>,
      \<lparr>doc_id = Some ''507f1f77bcf86cd799439013'',
       entries = [(''message'', Str ''Trip''),
                  (''expiration_date'', Str ''2031-01-01T00:00:00''),
                  (''start_date'', Str ''2029-01-01T00:00:00'')]\<rparr>]"

section \<open>list-active\<close>

lemma entries_serialize:
  "k \<noteq> ''id'' \<Longrightarrow> map_of (entries (serialize_announcement str d)) k = map_of (entries d) k"
  by (simp add: serialize_announcement_def update_conv' split: option.split)

lemma skip_iff:
  "(truthy v \<and> py_gt v now) \<longleftrightarrow> \<not> (case v of Null \<Rightarrow> True | Str s \<Rightarrow> s \<le> now)"
  by (cases v) (auto simp: not_le)

lemma active_loop_filter:
  "active_loop str now ds =
     map (serialize_announcement str)
       (filter (\<lambda>d. case dict_get d ''start_date'' of Null \<Rightarrow> True | Str s \<Rightarrow> s \<le> now) ds)"
  by (induction ds) (simp_all add: Let_def skip_iff)

lemma get_active_filter:
  "get_active_announcements str now coll =
     map (serialize_announcement str) (filter (is_active now) coll)"
proof -
  have "filter (\<lambda>d. gte_expiration now d
                    \<and> (case dict_get d ''start_date'' of Null \<Rightarrow> True | Str s \<Rightarrow> s \<le> now)) coll
          = filter (is_active now) coll"
    by (rule filter_cong) (simp_all add: is_active_def gte_expiration_def)
  then show ?thesis
    by (simp add: get_active_announcements_def active_loop_filter)
qed

lemma active_serialized:
  assumes "is_active now d"
  shows "\<not> expired now (serialize_announcement str d)
         \<and> \<not> not_yet_started now (serialize_announcement str d)"
  using assms
  by (auto simp: is_active_def expired_def not_yet_started_def dict_get_def entries_serialize
           split: option.splits val.splits)

text \<open>
  C1. For every collection and every current timestamp, list-active returns exactly the
  active announcements (expiration date lexically not below the timestamp, start date
  absent or lexically not above it), in the store's order, each serialized; no returned
  record is expired and none has a start date after the timestamp.
\<close>

theorem list_active_exact:
  "get_active_announcements str now coll =
     map (serialize_announcement str) (filter (is_active now) coll)
   \<and> (\<forall>r \<in> set (get_active_announcements str now coll).
         \<not> expired now r \<and> \<not> not_yet_started now r)"
  by (auto simp: get_active_filter dest: active_serialized)

theorem list_active_exact_witness:
  "get_active_announcements hex_str ''2026-11-04T12:28:00'' board =
     [\<lparr>doc_id = None,
       entries = [(''message'', Str ''Exams''),
                  (''expiration_date'', Str ''2030-01-01T00:00:00''),
                  (''start_date'', Null),
                  (''id'', Str ''507f1f77bcf86cd799439011'')]\<rparr>]
   \<and> \<not> expired ''2026-11-04T12:28:00''
         \<lparr>doc_id = None :: string option,
          entries = [(''message'', Str ''Exams''),
                  (''expiration_date'', Str ''2030-01-01T00:00:00''),
                  (''start_date'', Null),
                  (''id'', Str ''507f1f77bcf86cd799439011'')]\<rparr>"
proof -
  let ?r = "\<lparr>doc_id = None :: string option,
       entries = [(''message'', Str ''Exams''),
                  (''expiration_date'', Str ''2030-01-01T00:00:00''),
                  (''start_date'', Null),
                  (''id'', Str ''507f1f77bcf86cd799439011'')]\<rparr>"
  note t = list_active_exact [of hex_str "''2026-11-04T12:28:00''" board]
  have "map (serialize_announcement hex_str) (filter (is_active ''2026-11-04T12:28:00'') board) = [?r]"
    by (simp add: board_def is_active_def dict_get_def serialize_announcement_def hex_str_def)
  with t have a: "get_active_announcements hex_str ''2026-11-04T12:28:00'' board = [?r]"
    by simp
  with t have "\<not> expired ''2026-11-04T12:28:00'' ?r" by simp
  with a show ?thesis by simp
qed

section \<open>Authentication\<close>

text \<open>
  C2 (amended). In each of the four authenticated operations: an omitted or empty
  \<open>teacher_username\<close> fails with 401 "Authentication required for this action"; a
  non-empty one that the credential store does not resolve fails with 401 "Invalid
  teacher credentials"; a non-empty one that resolves never gives status 401.
\<close>

theorem auth_rule:
  "(teacher_username = None \<or> teacher_username = Some [] \<longrightarrow>
      get_all_announcements str teachers coll teacher_username
        = Inl (HTTPException 401 ''Authentication required for this action'')
      \<and> fst (create_announcement fromisoformat str teachers now generated coll message
                expiration_date start_date teacher_username)
        = Inl (HTTPException 401 ''Authentication required for this action'')
      \<and> fst (update_announcement fromisoformat ObjectId str teachers now driver_raises coll
                announcement_id message expiration_date start_date teacher_username)
        = Inl (HTTPException 401 ''Authentication required for this action'')
      \<and> fst (delete_announcement ObjectId teachers driver_raises coll announcement_id
                teacher_username)
        = Inl (HTTPException 401 ''Authentication required for this action''))
   \<and> (\<forall>u. teacher_username = Some u \<and> u \<noteq> [] \<and> teachers u = None \<longrightarrow>
      get_all_announcements str teachers coll teacher_username
        = Inl (HTTPException 401 ''Invalid teacher credentials'')
      \<and> fst (create_announcement fromisoformat str teachers now generated coll message
                expiration_date start_date teacher_username)
        = Inl (HTTPException 401 ''Invalid teacher credentials'')
      \<and> fst (update_announcement fromisoformat ObjectId str teachers now driver_raises coll
                announcement_id message expiration_date start_date teacher_username)
        = Inl (HTTPException 401 ''Invalid teacher credentials'')
      \<and> fst (delete_announcement ObjectId teachers driver_raises coll announcement_id
                teacher_username)
        = Inl (HTTPException 401 ''Invalid teacher credentials''))
   \<and> (\<forall>u t. teacher_username = Some u \<and> u \<noteq> [] \<and> teachers u = Some t \<longrightarrow>
      http_status GET_all (get_all_announcements str teachers coll teacher_username) \<noteq> 401
      \<and> http_status POST_create
            (fst (create_announcement fromisoformat str teachers now generated coll message
                    expiration_date start_date teacher_username)) \<noteq> 401
      \<and> http_status PUT_update
            (fst (update_announcement fromisoformat ObjectId str teachers now driver_raises
                    coll announcement_id message expiration_date start_date
                    teacher_username)) \<noteq> 401
      \<and> http_status DELETE_delete
            (fst (delete_announcement ObjectId teachers driver_raises coll announcement_id
                    teacher_username)) \<noteq> 401)"
proof (intro conjI impI allI)
  show "http_status POST_create
            (fst (create_announcement fromisoformat str teachers now generated coll message
                    expiration_date start_date teacher_username)) \<noteq> 401"
    if "teacher_username = Some u \<and> u \<noteq> [] \<and> teachers u = Some t" for u t
    using that by (simp add: create_announcement_def insert_one_def)
  show "http_status PUT_update
            (fst (update_announcement fromisoformat ObjectId str teachers now driver_raises
                    coll announcement_id message expiration_date start_date
                    teacher_username)) \<noteq> 401"
    if "teacher_username = Some u \<and> u \<noteq> [] \<and> teachers u = Some t" for u t
    using that by (simp add: update_announcement_def split: option.split prod.split)
  show "http_status DELETE_delete
            (fst (delete_announcement ObjectId teachers driver_raises coll announcement_id
                    teacher_username)) \<noteq> 401"
    if "teacher_username = Some u \<and> u \<noteq> [] \<and> teachers u = Some t" for u t
    using that by (simp add: delete_announcement_def split: option.split prod.split)
qed (auto simp: get_all_announcements_def create_announcement_def update_announcement_def
        delete_announcement_def)

theorem auth_rule_witness:
  "get_all_announcements hex_str staff board None
     = Inl (HTTPException 401 ''Authentication required for this action'')
   \<and> fst (delete_announcement hex_ObjectId staff False board ''507f1f77bcf86cd799439011''
            (Some ''nobody''))
     = Inl (HTTPException 401 ''Invalid teacher credentials'')
   \<and> http_status POST_create
        (fst (create_announcement basic_fromisoformat hex_str staff ''2026-11-04T12:28:00''
                ''507f1f77bcf86cd799439014'' board ''Hello'' ''2099-01-01T00:00:00Z'' None
                (Some ''mchen''))) \<noteq> 401"
proof -
  note r = auth_rule [where str = hex_str and teachers = staff and coll = board
      and fromisoformat = basic_fromisoformat and now = "''2026-11-04T12:28:00''"
      and generated = "''507f1f77bcf86cd799439014''" and message = "''Hello''"
      and expiration_date = "''2099-01-01T00:00:00Z''" and start_date = None
      and ObjectId = hex_ObjectId and driver_raises = False
      and announcement_id = "''507f1f77bcf86cd799439011''"]
  have a: "get_all_announcements hex_str staff board None
             = Inl (HTTPException 401 ''Authentication required for this action'')"
    using r [where teacher_username = None] by simp
  have b: "fst (delete_announcement hex_ObjectId staff False board
                  ''507f1f77bcf86cd799439011'' (Some ''nobody''))
             = Inl (HTTPException 401 ''Invalid teacher credentials'')"
    using r [where teacher_username = "Some ''nobody''"] by (simp add: staff_def)
  have c: "http_status POST_create
        (fst (create_announcement basic_fromisoformat hex_str staff ''2026-11-04T12:28:00''
                ''507f1f77bcf86cd799439014'' board ''Hello'' ''2099-01-01T00:00:00Z'' None
                (Some ''mchen''))) \<noteq> 401"
    using r [where teacher_username = "Some ''mchen''"] by (simp add: staff_def)
  from a b c show ?thesis by simp
qed

text \<open>
  The claim as written fails for the empty username: it is present and unresolvable,
  and the message is not "Invalid teacher credentials".
\<close>

theorem auth_rule_counterexample:
  "staff [] = None
   \<and> get_all_announcements hex_str staff board (Some [])
       = Inl (HTTPException 401 ''Authentication required for this action'')
   \<and> get_all_announcements hex_str staff board (Some [])
       \<noteq> Inl (HTTPException 401 ''Invalid teacher credentials'')"
  by (simp add: staff_def get_all_announcements_def)

text \<open>
  C10. In each of the four authenticated operations an empty \<open>teacher_username\<close> gives
  the same outcome as an omitted one: 401 with "Authentication required for this
  action", whatever the credential store holds, and the collection is left as it was.
\<close>

theorem empty_username_is_absent:
  "get_all_announcements str teachers coll (Some [])
     = Inl (HTTPException 401 ''Authentication required for this action'')
   \<and> get_all_announcements str teachers coll (Some [])
     = get_all_announcements str teachers coll None
   \<and> create_announcement fromisoformat str teachers now generated coll message
        expiration_date start_date (Some [])
     = (Inl (HTTPException 401 ''Authentication required for this action''), coll)
   \<and> create_announcement fromisoformat str teachers now generated coll message
        expiration_date start_date (Some [])
     = create_announcement fromisoformat str teachers now generated coll message
        expiration_date start_date None
   \<and> update_announcement fromisoformat ObjectId str teachers now driver_raises coll
        announcement_id message expiration_date start_date (Some [])
     = (Inl (HTTPException 401 ''Authentication required for this action''), coll)
   \<and> update_announcement fromisoformat ObjectId str teachers now driver_raises coll
        announcement_id message expiration_date start_date (Some [])
     = update_announcement fromisoformat ObjectId str teachers now driver_raises coll
        announcement_id message expiration_date start_date None
   \<and> delete_announcement ObjectId teachers driver_raises coll announcement_id (Some [])
     = (Inl (HTTPException 401 ''Authentication required for this action''), coll)
   \<and> delete_announcement ObjectId teachers driver_raises coll announcement_id (Some [])
     = delete_announcement ObjectId teachers driver_raises coll announcement_id None"
  by (simp add: get_all_announcements_def create_announcement_def update_announcement_def
        delete_announcement_def)

section \<open>The authenticated paths\<close>

lemma update_one_absent:
  "find_one i coll = None \<Longrightarrow> update_one i upd coll = (coll, 0)"
  by (induction coll) (auto simp: find_one_def split: if_splits)

lemma delete_one_absent:
  "find_one i coll = None \<Longrightarrow> delete_one i coll = (coll, 0)"
  by (induction coll) (auto simp: find_one_def split: if_splits)


lemma create_authenticated:
  assumes "u \<noteq> []" and "teachers u \<noteq> None"
  shows "create_announcement fromisoformat str teachers now generated coll message
           expiration_date start_date (Some u) =
         (if fromisoformat (replace_Z expiration_date) = None then
            (Inl (HTTPException 400 ''Invalid expiration_date format. Use ISO format.''), coll)
          else if (case start_date of
                     Some s \<Rightarrow> s \<noteq> [] \<and> fromisoformat (replace_Z s) = None
                   | None \<Rightarrow> False) then
            (Inl (HTTPException 400 ''Invalid start_date format. Use ISO format.''), coll)
          else
            (Inr \<lparr>doc_id = None,
                  entries = [(''message'', Str message),
                             (''expiration_date'', Str expiration_date),
                             (''start_date'', opt_val start_date),
                             (''created_by'', Str u),
                             (''created_at'', Str now),
                             (''id'', Str (str generated))]\<rparr>,
             coll @ [\<lparr>doc_id = Some generated,
                      entries = [(''message'', Str message),
                                 (''expiration_date'', Str expiration_date),
                                 (''start_date'', opt_val start_date),
                                 (''created_by'', Str u),
                                 (''created_at'', Str now)]\<rparr>]))"
  using assms by (auto simp: create_announcement_def insert_one_def)

lemma update_authenticated:
  assumes "u \<noteq> []" and "teachers u \<noteq> None"
  shows "update_announcement fromisoformat ObjectId str teachers now driver_raises coll
           announcement_id message expiration_date start_date (Some u) =
         (if fromisoformat (replace_Z expiration_date) = None then
            (Inl (HTTPException 400 ''Invalid expiration_date format. Use ISO format.''), coll)
          else if (case start_date of
                     Some s \<Rightarrow> s \<noteq> [] \<and> fromisoformat (replace_Z s) = None
                   | None \<Rightarrow> False) then
            (Inl (HTTPException 400 ''Invalid start_date format. Use ISO format.''), coll)
          else (case ObjectId announcement_id of
            None \<Rightarrow> (Inl (HTTPException 400 ''Invalid announcement ID''), coll)
          | Some i \<Rightarrow>
              if driver_raises then (Inl (HTTPException 400 ''Invalid announcement ID''), coll)
              else (case update_one i
                           [(''message'', Str message),
                            (''expiration_date'', Str expiration_date),
                            (''start_date'', opt_val start_date),
                            (''updated_by'', Str u),
                            (''updated_at'', Str now)] coll of
                (coll', matched_count) \<Rightarrow>
                  if matched_count = 0 then
                    (Inl (HTTPException 404 ''Announcement not found''), coll')
                  else (Inr (map_option (serialize_announcement str) (find_one i coll')),
                        coll'))))"
  using assms by (auto simp: update_announcement_def)

lemma delete_authenticated:
  assumes "u \<noteq> []" and "teachers u \<noteq> None"
  shows "delete_announcement ObjectId teachers driver_raises coll announcement_id
           (Some u) =
         (case ObjectId announcement_id of
            None \<Rightarrow> (Inl (HTTPException 400 ''Invalid announcement ID''), coll)
          | Some i \<Rightarrow>
              if driver_raises then (Inl (HTTPException 400 ''Invalid announcement ID''), coll)
              else (case delete_one i coll of
                (coll', deleted_count) \<Rightarrow>
                  if deleted_count = 0 then
                    (Inl (HTTPException 404 ''Announcement not found''), coll')
                  else (Inr [(''message'', ''Announcement deleted successfully'')], coll')))"
  using assms by (auto simp: delete_announcement_def)

lemma update_validated:
  assumes "u \<noteq> []" and "teachers u \<noteq> None"
    and "fromisoformat (replace_Z expiration_date) \<noteq> None"
    and "\<not> (case start_date of
              Some s \<Rightarrow> s \<noteq> [] \<and> fromisoformat (replace_Z s) = None
            | None \<Rightarrow> False)"
  shows "fst (update_announcement fromisoformat ObjectId str teachers now driver_raises coll
           announcement_id message expiration_date start_date (Some u))
         \<in> {Inl (HTTPException 400 ''Invalid announcement ID''),
            Inl (HTTPException 404 ''Announcement not found'')} \<union> range Inr"
  using assms
  by (auto simp: update_authenticated split: option.split prod.split)

section \<open>Date validation\<close>

text \<open>
  C3 (amended). For every authenticated call to create or update: it fails with 400
  "Invalid expiration_date format. Use ISO format." exactly when \<open>fromisoformat\<close>
  rejects the expiration date with every Z replaced by +00:00; when the expiration date
  is accepted and a non-empty start date is given, it fails with 400 "Invalid start_date
  format. Use ISO format." exactly when the start date is rejected under the same rule;
  an omitted or empty start date is never reported.
\<close>

theorem date_validation:
  assumes "teacher_username = Some u" and "u \<noteq> []" and "teachers u = Some t"
  shows
    "(fst (create_announcement fromisoformat str teachers now generated coll message
             expiration_date start_date teacher_username)
        = Inl (HTTPException 400 ''Invalid expiration_date format. Use ISO format.'')
      \<longleftrightarrow> fromisoformat (replace_Z expiration_date) = None)
     \<and> (fst (update_announcement fromisoformat ObjectId str teachers now driver_raises coll
                announcement_id message expiration_date start_date teacher_username)
        = Inl (HTTPException 400 ''Invalid expiration_date format. Use ISO format.'')
      \<longleftrightarrow> fromisoformat (replace_Z expiration_date) = None)
     \<and> (fromisoformat (replace_Z expiration_date) \<noteq> None \<longrightarrow>
          (\<forall>s. start_date = Some s \<and> s \<noteq> [] \<longrightarrow>
             (fst (create_announcement fromisoformat str teachers now generated coll message
                     expiration_date start_date teacher_username)
                = Inl (HTTPException 400 ''Invalid start_date format. Use ISO format.'')
              \<longleftrightarrow> fromisoformat (replace_Z s) = None)
             \<and> (fst (update_announcement fromisoformat ObjectId str teachers now
                       driver_raises coll announcement_id message expiration_date start_date
                       teacher_username)
                = Inl (HTTPException 400 ''Invalid start_date format. Use ISO format.'')
              \<longleftrightarrow> fromisoformat (replace_Z s) = None)))
     \<and> (start_date = None \<or> start_date = Some [] \<longrightarrow>
          fst (create_announcement fromisoformat str teachers now generated coll message
                 expiration_date start_date teacher_username)
            \<noteq> Inl (HTTPException 400 ''Invalid start_date format. Use ISO format.'')
          \<and> fst (update_announcement fromisoformat ObjectId str teachers now driver_raises
                   coll announcement_id message expiration_date start_date teacher_username)
            \<noteq> Inl (HTTPException 400 ''Invalid start_date format. Use ISO format.''))"
proof -
  note tu = \<open>teacher_username = Some u\<close>
  from assms have known: "teachers u \<noteq> None" by simp
  note auth = \<open>u \<noteq> []\<close> known
  let ?bad_start = "case start_date of
                      Some s \<Rightarrow> s \<noteq> [] \<and> fromisoformat (replace_Z s) = None
                    | None \<Rightarrow> False"
  let ?c = "fst (create_announcement fromisoformat str teachers now generated coll message
                   expiration_date start_date (Some u))"
  let ?p = "fst (update_announcement fromisoformat ObjectId str teachers now driver_raises
                   coll announcement_id message expiration_date start_date (Some u))"
  consider (bad_exp) "fromisoformat (replace_Z expiration_date) = None"
    | (bad_start) "fromisoformat (replace_Z expiration_date) \<noteq> None" "?bad_start"
    | (valid) "fromisoformat (replace_Z expiration_date) \<noteq> None" "\<not> ?bad_start"
    by blast
  then show ?thesis
  proof cases
    case bad_exp
    then have "?c = Inl (HTTPException 400 ''Invalid expiration_date format. Use ISO format.'')"
      and "?p = Inl (HTTPException 400 ''Invalid expiration_date format. Use ISO format.'')"
      by (simp_all add: create_authenticated update_authenticated auth)
    with bad_exp show ?thesis unfolding tu by simp
  next
    case bad_start
    then have "?c = Inl (HTTPException 400 ''Invalid start_date format. Use ISO format.'')"
      and "?p = Inl (HTTPException 400 ''Invalid start_date format. Use ISO format.'')"
      by (simp_all add: create_authenticated update_authenticated auth)
    with bad_start show ?thesis unfolding tu by (auto split: option.splits)
  next
    case valid
    then have "\<exists>r. ?c = Inr r"
      by (simp add: create_authenticated auth)
    moreover from valid have
      "?p \<in> {Inl (HTTPException 400 ''Invalid announcement ID''),
             Inl (HTTPException 404 ''Announcement not found'')} \<union> range Inr"
      using auth by (intro update_validated) simp_all
    ultimately show ?thesis
      unfolding tu using valid by (auto split: option.splits)
  qed
qed

theorem date_validation_witness:
  "fst (create_announcement basic_fromisoformat hex_str staff ''2026-11-04T12:28:00''
          ''507f1f77bcf86cd799439014'' board ''Hello'' ''2099-01-01T00:00:00Z''
          (Some ''next week'') (Some ''mchen''))
     = Inl (HTTPException 400 ''Invalid start_date format. Use ISO format.'')
   \<and> fst (update_announcement basic_fromisoformat hex_ObjectId hex_str staff
            ''2026-11-04T12:28:00'' False board ''507f1f77bcf86cd799439011'' ''Hello''
            ''not-a-date'' None (Some ''mchen''))
     = Inl (HTTPException 400 ''Invalid expiration_date format. Use ISO format.'')"
proof -
  note r = date_validation [where teacher_username = "Some ''mchen''" and u = "''mchen''"
      and t = "()" and teachers = staff and fromisoformat = basic_fromisoformat
      and str = hex_str and ObjectId = hex_ObjectId and now = "''2026-11-04T12:28:00''"
      and generated = "''507f1f77bcf86cd799439014''" and coll = board
      and driver_raises = False and announcement_id = "''507f1f77bcf86cd799439011''"
      and message = "''Hello''"]
  have a: "fst (create_announcement basic_fromisoformat hex_str staff ''2026-11-04T12:28:00''
          ''507f1f77bcf86cd799439014'' board ''Hello'' ''2099-01-01T00:00:00Z''
          (Some ''next week'') (Some ''mchen''))
     = Inl (HTTPException 400 ''Invalid start_date format. Use ISO format.'')"
    using r [where expiration_date = "''2099-01-01T00:00:00Z''"
        and start_date = "Some ''next week''"]
    by (simp add: staff_def basic_fromisoformat_def replace_Z_def)
  have b: "fst (update_announcement basic_fromisoformat hex_ObjectId hex_str staff
            ''2026-11-04T12:28:00'' False board ''507f1f77bcf86cd799439011'' ''Hello''
            ''not-a-date'' None (Some ''mchen''))
     = Inl (HTTPException 400 ''Invalid expiration_date format. Use ISO format.'')"
    using r [where expiration_date = "''not-a-date''" and start_date = None]
    by (simp add: staff_def basic_fromisoformat_def replace_Z_def)
  from a b show ?thesis by simp
qed

text \<open>
  The claim as written fails twice: an empty start date is provided and unparseable, yet
  create succeeds and stores it; and with both dates unparseable the failure names the
  expiration date, not the start date.
\<close>

theorem date_validation_counterexample:
  "basic_fromisoformat (replace_Z []) = None
   \<and> fst (create_announcement basic_fromisoformat hex_str staff ''2026-11-04T12:28:00''
            ''507f1f77bcf86cd799439014'' board ''Hello'' ''2099-01-01T00:00:00Z''
            (Some []) (Some ''mchen''))
     = Inr \<lparr>doc_id = None,
            entries = [(''message'', Str ''Hello''),
                       (''expiration_date'', Str ''2099-01-01T00:00:00Z''),
                       (''start_date'', Str []),
                       (''created_by'', Str ''mchen''),
                       (''created_at'', Str ''2026-11-04T12:28:00''),
                       (''id'', Str ''507f1f77bcf86cd799439014'')]\<rparr>
   \<and> basic_fromisoformat (replace_Z ''not-a-date'') = None
   \<and> fst (create_announcement basic_fromisoformat hex_str staff ''2026-11-04T12:28:00''
            ''507f1f77bcf86cd799439014'' board ''Hello'' ''not-a-date''
            (Some ''not-a-date'') (Some ''mchen''))
     = Inl (HTTPException 400 ''Invalid expiration_date format. Use ISO format.'')"
  by (simp add: create_announcement_def insert_one_def staff_def basic_fromisoformat_def
        replace_Z_def hex_str_def)

section \<open>create\<close>

text \<open>
  C4. For every call to create with a resolvable (non-empty, found) \<open>teacher_username\<close>
  and accepted dates: the collection gains one record with the message, the two dates as
  the input strings, \<open>created_by\<close> the username and \<open>created_at\<close> the current
  timestamp, under the generated identifier; the call returns that record with \<open>id\<close>
  the identifier's text, with status 201.
\<close>

theorem create_persists:
  assumes "teacher_username = Some u" and "u \<noteq> []" and "teachers u = Some t"
    and "fromisoformat (replace_Z expiration_date) \<noteq> None"
    and "\<forall>s. start_date = Some s \<and> s \<noteq> [] \<longrightarrow> fromisoformat (replace_Z s) \<noteq> None"
  shows
    "create_announcement fromisoformat str teachers now generated coll message
       expiration_date start_date teacher_username
     = (Inr \<lparr>doc_id = None,
             entries = [(''message'', Str message),
                        (''expiration_date'', Str expiration_date),
                        (''start_date'', opt_val start_date),
                        (''created_by'', Str u),
                        (''created_at'', Str now),
                        (''id'', Str (str generated))]\<rparr>,
        coll @ [\<lparr>doc_id = Some generated,
                 entries = [(''message'', Str message),
                            (''expiration_date'', Str expiration_date),
                            (''start_date'', opt_val start_date),
                            (''created_by'', Str u),
                            (''created_at'', Str now)]\<rparr>])
     \<and> http_status POST_create
          (fst (create_announcement fromisoformat str teachers now generated coll message
                  expiration_date start_date teacher_username)) = 201"
proof -
  from assms have known: "teachers u \<noteq> None" by simp
  from assms(5) have ok: "\<not> (case start_date of
                              Some s \<Rightarrow> s \<noteq> [] \<and> fromisoformat (replace_Z s) = None
                            | None \<Rightarrow> False)"
    by (auto split: option.split)
  show ?thesis
    unfolding \<open>teacher_username = Some u\<close>
    using assms(4) ok by (simp add: create_authenticated \<open>u \<noteq> []\<close> known)
qed

theorem create_persists_witness:
  "create_announcement basic_fromisoformat hex_str staff ''2026-11-04T12:28:00''
     ''507f1f77bcf86cd799439014'' [] ''Hello'' ''2099-01-01T00:00:00Z''
     (Some ''2027-01-01T00:00:00'') (Some ''mchen'')
   = (Inr \<lparr>doc_id = None,
           entries = [(''message'', Str ''Hello''),
                      (''expiration_date'', Str ''2099-01-01T00:00:00Z''),
                      (''start_date'', Str ''2027-01-01T00:00:00''),
                      (''created_by'', Str ''mchen''),
                      (''created_at'', Str ''2026-11-04T12:28:00''),
                      (''id'', Str ''507f1f77bcf86cd799439014'')]\<rparr>,
      [\<lparr>doc_id = Some ''507f1f77bcf86cd799439014'',
        entries = [(''message'', Str ''Hello''),
                   (''expiration_date'', Str ''2099-01-01T00:00:00Z''),
                   (''start_date'', Str ''2027-01-01T00:00:00''),
                   (''created_by'', Str ''mchen''),
                   (''created_at'', Str ''2026-11-04T12:28:00'')]\<rparr>])"
  using create_persists [where teacher_username = "Some ''mchen''" and u = "''mchen''"
      and t = "()" and teachers = staff and fromisoformat = basic_fromisoformat
      and str = hex_str and now = "''2026-11-04T12:28:00''"
      and generated = "''507f1f77bcf86cd799439014''" and coll = "[]"
      and message = "''Hello''" and expiration_date = "''2099-01-01T00:00:00Z''"
      and start_date = "Some ''2027-01-01T00:00:00''"]
  by (simp add: staff_def basic_fromisoformat_def replace_Z_def hex_str_def)

section \<open>Identifier errors of update and delete\<close>

text \<open>
  C5. For every call to update or delete with a resolvable \<open>teacher_username\<close> (and,
  for update, accepted dates): when \<open>ObjectId\<close> rejects the identifier or the driver
  raises in the single-record operation, the call fails with 400 "Invalid announcement
  ID"; when the identifier is well-formed, the driver answers and no record has that
  identifier, the call fails with 404.
\<close>

theorem identifier_errors:
  assumes "teacher_username = Some u" and "u \<noteq> []" and "teachers u = Some t"
  shows
    "(ObjectId announcement_id = None \<or> driver_raises \<longrightarrow>
        fst (delete_announcement ObjectId teachers driver_raises coll announcement_id
               teacher_username)
          = Inl (HTTPException 400 ''Invalid announcement ID''))
     \<and> (\<forall>i. ObjectId announcement_id = Some i \<and> \<not> driver_raises \<and> find_one i coll = None
           \<longrightarrow>
        fst (delete_announcement ObjectId teachers driver_raises coll announcement_id
               teacher_username)
          = Inl (HTTPException 404 ''Announcement not found''))
     \<and> (fromisoformat (replace_Z expiration_date) \<noteq> None
        \<and> (\<forall>s. start_date = Some s \<and> s \<noteq> [] \<longrightarrow> fromisoformat (replace_Z s) \<noteq> None)
        \<longrightarrow>
          (ObjectId announcement_id = None \<or> driver_raises \<longrightarrow>
             fst (update_announcement fromisoformat ObjectId str teachers now driver_raises
                    coll announcement_id message expiration_date start_date
                    teacher_username)
               = Inl (HTTPException 400 ''Invalid announcement ID''))
          \<and> (\<forall>i. ObjectId announcement_id = Some i \<and> \<not> driver_raises
                   \<and> find_one i coll = None \<longrightarrow>
             fst (update_announcement fromisoformat ObjectId str teachers now driver_raises
                    coll announcement_id message expiration_date start_date
                    teacher_username)
               = Inl (HTTPException 404 ''Announcement not found'')))"
proof -
  from assms have known: "teachers u \<noteq> None" by simp
  note auth = \<open>u \<noteq> []\<close> known
  have d: "fst (delete_announcement ObjectId teachers driver_raises coll announcement_id
                  (Some u)) = Inl (HTTPException 400 ''Invalid announcement ID'')"
    if "ObjectId announcement_id = None \<or> driver_raises"
    using that by (auto simp: delete_authenticated auth split: option.split)
  have d': "fst (delete_announcement ObjectId teachers driver_raises coll announcement_id
                  (Some u)) = Inl (HTTPException 404 ''Announcement not found'')"
    if "ObjectId announcement_id = Some i" "\<not> driver_raises" "find_one i coll = None" for i
    using that by (simp add: delete_authenticated auth delete_one_absent)
  have valid: "\<not> (case start_date of
                    Some s \<Rightarrow> s \<noteq> [] \<and> fromisoformat (replace_Z s) = None
                  | None \<Rightarrow> False)"
    if "\<forall>s. start_date = Some s \<and> s \<noteq> [] \<longrightarrow> fromisoformat (replace_Z s) \<noteq> None"
    using that by (auto split: option.split)
  have p: "fst (update_announcement fromisoformat ObjectId str teachers now driver_raises
                  coll announcement_id message expiration_date start_date (Some u))
             = Inl (HTTPException 400 ''Invalid announcement ID'')"
    if "fromisoformat (replace_Z expiration_date) \<noteq> None"
      "\<forall>s. start_date = Some s \<and> s \<noteq> [] \<longrightarrow> fromisoformat (replace_Z s) \<noteq> None"
      "ObjectId announcement_id = None \<or> driver_raises"
    using that(1,3) valid [OF that(2)]
    by (auto simp: update_authenticated auth split: option.split)
  have p': "fst (update_announcement fromisoformat ObjectId str teachers now driver_raises
                  coll announcement_id message expiration_date start_date (Some u))
             = Inl (HTTPException 404 ''Announcement not found'')"
    if "fromisoformat (replace_Z expiration_date) \<noteq> None"
      "\<forall>s. start_date = Some s \<and> s \<noteq> [] \<longrightarrow> fromisoformat (replace_Z s) \<noteq> None"
      "ObjectId announcement_id = Some i" "\<not> driver_raises" "find_one i coll = None" for i
    using that(1,3,4,5) valid [OF that(2)]
    by (auto simp: update_authenticated auth update_one_absent)
  show ?thesis
    unfolding \<open>teacher_username = Some u\<close>
  proof (intro conjI impI allI, goal_cases)
    case 1
    then show ?case by (rule d)
  next
    case (2 i)
    then show ?case using d' [of i] by (elim conjE)
  next
    case 3
    then show ?case using p by (elim conjE)
  next
    case (4 i)
    then show ?case using p' [of i] by (elim conjE)
  qed
qed

theorem identifier_errors_witness:
  "fst (delete_announcement hex_ObjectId staff False board ''42'' (Some ''mchen''))
     = Inl (HTTPException 400 ''Invalid announcement ID'')
   \<and> fst (delete_announcement hex_ObjectId staff True board ''507f1f77bcf86cd799439011''
            (Some ''mchen''))
     = Inl (HTTPException 400 ''Invalid announcement ID'')
   \<and> fst (delete_announcement hex_ObjectId staff False board ''507f1f77bcf86cd799439019''
            (Some ''mchen''))
     = Inl (HTTPException 404 ''Announcement not found'')
   \<and> fst (update_announcement basic_fromisoformat hex_ObjectId hex_str staff
            ''2026-11-04T12:28:00'' False board ''42'' ''Hello'' ''2099-01-01T00:00:00Z''
            None (Some ''mchen''))
     = Inl (HTTPException 400 ''Invalid announcement ID'')
   \<and> fst (update_announcement basic_fromisoformat hex_ObjectId hex_str staff
            ''2026-11-04T12:28:00'' False board ''507f1f77bcf86cd799439019'' ''Hello''
            ''2099-01-01T00:00:00Z'' None (Some ''mchen''))
     = Inl (HTTPException 404 ''Announcement not found'')"
proof -
  note r = identifier_errors [where teacher_username = "Some ''mchen''" and u = "''mchen''"
      and t = "()" and teachers = staff and fromisoformat = basic_fromisoformat
      and str = hex_str and ObjectId = hex_ObjectId and now = "''2026-11-04T12:28:00''"
      and coll = board and message = "''Hello''"
      and expiration_date = "''2099-01-01T00:00:00Z''" and start_date = None]
  note ev = staff_def basic_fromisoformat_def replace_Z_def hex_ObjectId_def find_one_def
    board_def
  have a: "fst (delete_announcement hex_ObjectId staff False board ''42'' (Some ''mchen''))
     = Inl (HTTPException 400 ''Invalid announcement ID'')"
    using r [where announcement_id = "''42''" and driver_raises = False]
    by (simp add: ev)
  have b: "fst (delete_announcement hex_ObjectId staff True board
                  ''507f1f77bcf86cd799439011'' (Some ''mchen''))
     = Inl (HTTPException 400 ''Invalid announcement ID'')"
    using r [where announcement_id = "''507f1f77bcf86cd799439011''" and driver_raises = True]
    by (simp add: ev)
  have c: "fst (delete_announcement hex_ObjectId staff False board
                  ''507f1f77bcf86cd799439019'' (Some ''mchen''))
     = Inl (HTTPException 404 ''Announcement not found'')"
    using r [where announcement_id = "''507f1f77bcf86cd799439019''"
        and driver_raises = False]
    by (simp add: ev)
  have d: "fst (update_announcement basic_fromisoformat hex_ObjectId hex_str staff
            ''2026-11-04T12:28:00'' False board ''42'' ''Hello'' ''2099-01-01T00:00:00Z''
            None (Some ''mchen''))
     = Inl (HTTPException 400 ''Invalid announcement ID'')"
    using r [where announcement_id = "''42''" and driver_raises = False]
    by (simp add: ev)
  have e: "fst (update_announcement basic_fromisoformat hex_ObjectId hex_str staff
            ''2026-11-04T12:28:00'' False board ''507f1f77bcf86cd799439019'' ''Hello''
            ''2099-01-01T00:00:00Z'' None (Some ''mchen''))
     = Inl (HTTPException 404 ''Announcement not found'')"
    using r [where announcement_id = "''507f1f77bcf86cd799439019''"
        and driver_raises = False]
    by (simp add: ev)
  from a b c d e show ?thesis by simp
qed

section \<open>update\<close>

lemma map_of_set_fields5:
  "map_of (set_fields [(k1, v1), (k2, v2), (k3, v3), (k4, v4), (k5, v5)] fs)
     = (map_of fs)(k1 \<mapsto> v1, k2 \<mapsto> v2, k3 \<mapsto> v3, k4 \<mapsto> v4, k5 \<mapsto> v5)"
  by (simp add: set_fields_def update_conv')

lemma find_one_SomeD:
  "find_one i coll = Some d \<Longrightarrow> d \<in> set coll \<and> doc_id d = Some i"
  by (auto simp: find_one_def find_Some_iff)

lemma update_one_present:
  assumes "find_one i coll = Some d"
  shows "\<exists>n < length coll. coll ! n = d
           \<and> update_one i upd coll = (coll[n := d\<lparr>entries := set_fields upd (entries d)\<rparr>], 1)"
  using assms
proof (induction coll)
  case Nil
  then show ?case by (simp add: find_one_def)
next
  case (Cons x xs)
  show ?case
  proof (cases "doc_id x = Some i")
    case True
    with Cons.prems have "x = d" by (simp add: find_one_def)
    with True have "(x # xs) ! 0 = d
        \<and> update_one i upd (x # xs)
            = ((x # xs)[0 := d\<lparr>entries := set_fields upd (entries d)\<rparr>], 1)"
      by simp
    then show ?thesis by blast
  next
    case False
    with Cons.prems have "find_one i xs = Some d" by (simp add: find_one_def)
    from Cons.IH [OF this] obtain n where n: "n < length xs" "xs ! n = d"
      "update_one i upd xs = (xs[n := d\<lparr>entries := set_fields upd (entries d)\<rparr>], 1)"
      by blast
    with False have "Suc n < length (x # xs) \<and> (x # xs) ! Suc n = d
        \<and> update_one i upd (x # xs)
            = ((x # xs)[Suc n := d\<lparr>entries := set_fields upd (entries d)\<rparr>], 1)"
      by simp
    then show ?thesis by blast
  qed
qed

lemma find_one_update_one:
  "find_one i coll = Some d \<Longrightarrow>
   find_one i (fst (update_one i upd coll)) = Some (d\<lparr>entries := set_fields upd (entries d)\<rparr>)"
  by (induction coll) (auto simp: find_one_def split: prod.splits if_splits)

text \<open>
  C6. For every successful update of an existing record (resolvable username, accepted
  dates, well-formed identifier, driver answering): the first record with that
  identifier is replaced in place by a record with the same identifier whose message,
  expiration date and start date are the supplied values (the start date null when
  omitted), with \<open>updated_by\<close> and \<open>updated_at\<close> set and every other entry, in
  particular \<open>created_by\<close> and \<open>created_at\<close>, as before; no other position of the
  collection changes; the serialized new record is returned with status 200.
\<close>

theorem update_replaces:
  assumes "teacher_username = Some u" and "u \<noteq> []" and "teachers u = Some t"
    and "fromisoformat (replace_Z expiration_date) \<noteq> None"
    and "\<forall>s. start_date = Some s \<and> s \<noteq> [] \<longrightarrow> fromisoformat (replace_Z s) \<noteq> None"
    and "ObjectId announcement_id = Some i"
    and "find_one i coll = Some d"
  shows
    "\<exists>n d'. n < length coll \<and> coll ! n = d
       \<and> update_announcement fromisoformat ObjectId str teachers now False coll
            announcement_id message expiration_date start_date teacher_username
          = (Inr (Some (serialize_announcement str d')), coll[n := d'])
       \<and> http_status PUT_update
            (fst (update_announcement fromisoformat ObjectId str teachers now False coll
                    announcement_id message expiration_date start_date teacher_username))
          = 200
       \<and> doc_id d' = doc_id d
       \<and> map_of (entries d') ''message'' = Some (Str message)
       \<and> map_of (entries d') ''expiration_date'' = Some (Str expiration_date)
       \<and> map_of (entries d') ''start_date'' = Some (opt_val start_date)
       \<and> map_of (entries d') ''updated_by'' = Some (Str u)
       \<and> map_of (entries d') ''updated_at'' = Some (Str now)
       \<and> map_of (entries d') ''created_by'' = map_of (entries d) ''created_by''
       \<and> map_of (entries d') ''created_at'' = map_of (entries d) ''created_at''
       \<and> (\<forall>k. k \<notin> {''message'', ''expiration_date'', ''start_date'', ''updated_by'',
                      ''updated_at''}
              \<longrightarrow> map_of (entries d') k = map_of (entries d) k)"
proof -
  let ?upd = "[(''message'', Str message), (''expiration_date'', Str expiration_date),
               (''start_date'', opt_val start_date), (''updated_by'', Str u),
               (''updated_at'', Str now)]"
  let ?d' = "d\<lparr>entries := set_fields ?upd (entries d)\<rparr>"
  from assms have known: "teachers u \<noteq> None" by simp
  from assms(5) have ok: "\<not> (case start_date of
                              Some s \<Rightarrow> s \<noteq> [] \<and> fromisoformat (replace_Z s) = None
                            | None \<Rightarrow> False)"
    by (auto split: option.split)
  from update_one_present [OF assms(7), of ?upd] obtain n where n: "n < length coll"
    "coll ! n = d" "update_one i ?upd coll = (coll[n := ?d'], 1)"
    by blast
  from find_one_update_one [OF assms(7), of ?upd] n(3)
  have found: "find_one i (coll[n := ?d']) = Some ?d'" by simp
  have res: "update_announcement fromisoformat ObjectId str teachers now False coll
            announcement_id message expiration_date start_date (Some u)
          = (Inr (Some (serialize_announcement str ?d')), coll[n := ?d'])"
    using assms(4) ok assms(6) n(3) found
    by (simp add: update_authenticated \<open>u \<noteq> []\<close> known)
  have fields: "map_of (entries ?d') = (map_of (entries d))(''message'' \<mapsto> Str message,
      ''expiration_date'' \<mapsto> Str expiration_date, ''start_date'' \<mapsto> opt_val start_date,
      ''updated_by'' \<mapsto> Str u, ''updated_at'' \<mapsto> Str now)"
    by (simp add: map_of_set_fields5)
  have "n < length coll \<and> coll ! n = d
       \<and> update_announcement fromisoformat ObjectId str teachers now False coll
            announcement_id message expiration_date start_date teacher_username
          = (Inr (Some (serialize_announcement str ?d')), coll[n := ?d'])
       \<and> http_status PUT_update
            (fst (update_announcement fromisoformat ObjectId str teachers now False coll
                    announcement_id message expiration_date start_date teacher_username))
          = 200
       \<and> doc_id ?d' = doc_id d
       \<and> map_of (entries ?d') ''message'' = Some (Str message)
       \<and> map_of (entries ?d') ''expiration_date'' = Some (Str expiration_date)
       \<and> map_of (entries ?d') ''start_date'' = Some (opt_val start_date)
       \<and> map_of (entries ?d') ''updated_by'' = Some (Str u)
       \<and> map_of (entries ?d') ''updated_at'' = Some (Str now)
       \<and> map_of (entries ?d') ''created_by'' = map_of (entries d) ''created_by''
       \<and> map_of (entries ?d') ''created_at'' = map_of (entries d) ''created_at''
       \<and> (\<forall>k. k \<notin> {''message'', ''expiration_date'', ''start_date'', ''updated_by'',
                      ''updated_at''}
              \<longrightarrow> map_of (entries ?d') k = map_of (entries d) k)"
    unfolding \<open>teacher_username = Some u\<close> res fields using n(1,2) by simp
  then show ?thesis by blast
qed

theorem update_replaces_witness:
  "fst (update_announcement basic_fromisoformat hex_ObjectId hex_str staff
          ''2026-11-04T12:28:00'' False board ''507f1f77bcf86cd799439013'' ''Trip moved''
          ''2032-01-01T00:00:00Z'' None (Some ''mchen''))
     = Inr (Some \<lparr>doc_id = None,
                  entries = [(''message'', Str ''Trip moved''),
                             (''expiration_date'', Str ''2032-01-01T00:00:00Z''),
                             (''start_date'', Null),
                             (''updated_by'', Str ''mchen''),
                             (''updated_at'', Str ''2026-11-04T12:28:00''),
                             (''id'', Str ''507f1f77bcf86cd799439013'')]\<rparr>)
   \<and> http_status PUT_update
        (fst (update_announcement basic_fromisoformat hex_ObjectId hex_str staff
                ''2026-11-04T12:28:00'' False board ''507f1f77bcf86cd799439013''
                ''Trip moved'' ''2032-01-01T00:00:00Z'' None (Some ''mchen''))) = 200"
proof -
  let ?d = "\<lparr>doc_id = Some ''507f1f77bcf86cd799439013'',
             entries = [(''message'', Str ''Trip''),
                        (''expiration_date'', Str ''2031-01-01T00:00:00''),
                        (''start_date'', Str ''2029-01-01T00:00:00'')]\<rparr>"
  have h: "staff ''mchen'' = Some ()"
    "basic_fromisoformat (replace_Z ''2032-01-01T00:00:00Z'') \<noteq> None"
    "hex_ObjectId ''507f1f77bcf86cd799439013'' = Some ''507f1f77bcf86cd799439013''"
    "find_one ''507f1f77bcf86cd799439013'' board = Some ?d"
    by (simp_all add: staff_def basic_fromisoformat_def replace_Z_def hex_ObjectId_def
          find_one_def board_def)
  from update_replaces [where teacher_username = "Some ''mchen''" and u = "''mchen''"
      and t = "()" and teachers = staff and fromisoformat = basic_fromisoformat
      and str = hex_str and ObjectId = hex_ObjectId and now = "''2026-11-04T12:28:00''"
      and coll = board and message = "''Trip moved''"
      and expiration_date = "''2032-01-01T00:00:00Z''" and start_date = None
      and announcement_id = "''507f1f77bcf86cd799439013''"
      and i = "''507f1f77bcf86cd799439013''" and d = ?d] h
  have ok: "http_status PUT_update
        (fst (update_announcement basic_fromisoformat hex_ObjectId hex_str staff
                ''2026-11-04T12:28:00'' False board ''507f1f77bcf86cd799439013''
                ''Trip moved'' ''2032-01-01T00:00:00Z'' None (Some ''mchen''))) = 200"
    by auto
  have "fst (update_announcement basic_fromisoformat hex_ObjectId hex_str staff
          ''2026-11-04T12:28:00'' False board ''507f1f77bcf86cd799439013'' ''Trip moved''
          ''2032-01-01T00:00:00Z'' None (Some ''mchen''))
     = Inr (Some \<lparr>doc_id = None,
                  entries = [(''message'', Str ''Trip moved''),
                             (''expiration_date'', Str ''2032-01-01T00:00:00Z''),
                             (''start_date'', Null),
                             (''updated_by'', Str ''mchen''),
                             (''updated_at'', Str ''2026-11-04T12:28:00''),
                             (''id'', Str ''507f1f77bcf86cd799439013'')]\<rparr>)"
    by (simp add: update_announcement_def staff_def basic_fromisoformat_def replace_Z_def
          hex_ObjectId_def board_def find_one_def set_fields_def
          serialize_announcement_def hex_str_def)
  with ok show ?thesis by simp
qed

section \<open>delete\<close>

lemma delete_one_present:
  "find_one i coll = Some d \<Longrightarrow> delete_one i coll = (remove1 d coll, 1)"
proof (induction coll)
  case Nil
  then show ?case by (simp add: find_one_def)
next
  case (Cons x xs)
  show ?case
  proof (cases "doc_id x = Some i")
    case True
    with Cons.prems show ?thesis by (simp add: find_one_def)
  next
    case False
    with Cons.prems have rest: "find_one i xs = Some d" by (simp add: find_one_def)
    from find_one_SomeD [OF rest] False have "x \<noteq> d" by auto
    with False Cons.IH [OF rest] show ?thesis by simp
  qed
qed

lemma find_one_None_iff:
  "find_one i coll = None \<longleftrightarrow> (\<forall>x \<in> set coll. doc_id x \<noteq> Some i)"
  by (auto simp: find_one_def find_None_iff)

lemma removed_is_gone:
  assumes "unique_ids coll" and "find_one i coll = Some d"
  shows "find_one i (remove1 d coll) = None"
proof -
  from assms(1) have inj: "inj_on doc_id (set coll)" and dist: "distinct coll"
    by (simp_all add: unique_ids_def distinct_map)
  from find_one_SomeD [OF assms(2)] have d: "d \<in> set coll" "doc_id d = Some i" by simp_all
  have "doc_id x \<noteq> Some i" if "x \<in> set (remove1 d coll)" for x
  proof
    assume "doc_id x = Some i"
    from that dist have "x \<in> set coll" "x \<noteq> d" by simp_all
    moreover from d \<open>doc_id x = Some i\<close> have "doc_id x = doc_id d" by simp
    ultimately show False using inj d(1) by (simp add: inj_on_def)
  qed
  then show ?thesis by (simp add: find_one_None_iff)
qed

text \<open>
  C7. For every successful delete of an existing record in a collection with unique
  identifiers: the record is removed, the call returns status 200 with the body
  \<^verbatim>\<open>{"message": "Announcement deleted successfully"}\<close>, no record with that
  identifier remains, and the same delete repeated on the resulting collection fails
  with 404.
\<close>

theorem delete_removes:
  assumes "teacher_username = Some u" and "u \<noteq> []" and "teachers u = Some t"
    and "ObjectId announcement_id = Some i"
    and "find_one i coll = Some d"
    and "unique_ids coll"
  shows
    "delete_announcement ObjectId teachers False coll announcement_id teacher_username
       = (Inr [(''message'', ''Announcement deleted successfully'')], remove1 d coll)
     \<and> http_status DELETE_delete
          (fst (delete_announcement ObjectId teachers False coll announcement_id
                  teacher_username)) = 200
     \<and> find_one i (remove1 d coll) = None
     \<and> delete_announcement ObjectId teachers False (remove1 d coll) announcement_id
          teacher_username
       = (Inl (HTTPException 404 ''Announcement not found''), remove1 d coll)
     \<and> http_status DELETE_delete
          (fst (delete_announcement ObjectId teachers False (remove1 d coll)
                  announcement_id teacher_username)) = 404"
proof -
  from assms have known: "teachers u \<noteq> None" by simp
  note auth = \<open>u \<noteq> []\<close> known
  have first: "delete_announcement ObjectId teachers False coll announcement_id (Some u)
       = (Inr [(''message'', ''Announcement deleted successfully'')], remove1 d coll)"
    using assms(4) delete_one_present [OF assms(5)]
    by (simp add: delete_authenticated auth)
  have gone: "find_one i (remove1 d coll) = None"
    using assms(6,5) by (rule removed_is_gone)
  have second: "delete_announcement ObjectId teachers False (remove1 d coll)
                  announcement_id (Some u)
       = (Inl (HTTPException 404 ''Announcement not found''), remove1 d coll)"
    using assms(4) delete_one_absent [OF gone]
    by (simp add: delete_authenticated auth)
  show ?thesis
    unfolding \<open>teacher_username = Some u\<close> first second using gone by simp
qed

theorem delete_removes_witness:
  "delete_announcement hex_ObjectId staff False board ''507f1f77bcf86cd799439012''
     (Some ''mchen'')
     = (Inr [(''message'', ''Announcement deleted successfully'')],
        [\<lparr>doc_id = Some ''507f1f77bcf86cd799439011'',
          entries = [(''message'', Str ''Exams''),
                     (''expiration_date'', Str ''2030-01-01T00:00:00''),
                     (''start_date'', Null)]\<rparr>,
         \<lparr>doc_id = Some ''507f1f77bcf86cd799439013'',
          entries = [(''message'', Str ''Trip''),
                     (''expiration_date'', Str ''2031-01-01T00:00:00''),
                     (''start_date'', Str ''2029-01-01T00:00:00'')]\<rparr>])
   \<and> fst (delete_announcement hex_ObjectId staff False
        [\<lparr>doc_id = Some ''507f1f77bcf86cd799439011'',
          entries = [(''message'', Str ''Exams''),
                     (''expiration_date'', Str ''2030-01-01T00:00:00''),
                     (''start_date'', Null)]\<rparr>,
         \<lparr>doc_id = Some ''507f1f77bcf86cd799439013'',
          entries = [(''message'', Str ''Trip''),
                     (''expiration_date'', Str ''2031-01-01T00:00:00''),
                     (''start_date'', Str ''2029-01-01T00:00:00'')]\<rparr>]
        ''507f1f77bcf86cd799439012'' (Some ''mchen''))
     = Inl (HTTPException 404 ''Announcement not found'')"
proof -
  let ?d = "\<lparr>doc_id = Some ''507f1f77bcf86cd799439012'',
             entries = [(''message'', Str ''Fair''),
                        (''expiration_date'', Str ''2020-06-30T00:00:00''),
                        (''start_date'', Null)]\<rparr>"
  have h: "staff ''mchen'' = Some ()"
    "hex_ObjectId ''507f1f77bcf86cd799439012'' = Some ''507f1f77bcf86cd799439012''"
    "find_one ''507f1f77bcf86cd799439012'' board = Some ?d"
    "unique_ids board"
    by (simp_all add: staff_def hex_ObjectId_def find_one_def board_def unique_ids_def)
  have r: "remove1 ?d board =
        [\<lparr>doc_id = Some ''507f1f77bcf86cd799439011'',
          entries = [(''message'', Str ''Exams''),
                     (''expiration_date'', Str ''2030-01-01T00:00:00''),
                     (''start_date'', Null)]\<rparr>,
         \<lparr>doc_id = Some ''507f1f77bcf86cd799439013'',
          entries = [(''message'', Str ''Trip''),
                     (''expiration_date'', Str ''2031-01-01T00:00:00''),
                     (''start_date'', Str ''2029-01-01T00:00:00'')]\<rparr>]"
    by (simp add: board_def)
  from delete_removes [where teacher_username = "Some ''mchen''" and u = "''mchen''"
      and t = "()" and teachers = staff and ObjectId = hex_ObjectId and coll = board
      and announcement_id = "''507f1f77bcf86cd799439012''"
      and i = "''507f1f77bcf86cd799439012''" and d = ?d] h
  show ?thesis unfolding r by simp
qed

text \<open>The handlers' store operations keep identifiers unique.\<close>

lemma ids_update_one: "map doc_id (fst (update_one i upd coll)) = map doc_id coll"
  by (induction coll) (auto split: prod.splits)

lemma ids_delete_one:
  "map doc_id (fst (delete_one i coll)) = remove1 (Some i) (map doc_id coll)"
  by (induction coll) (auto split: prod.splits)

lemma unique_ids_insert_one:
  "unique_ids coll \<Longrightarrow> Some generated \<notin> doc_id ` set coll \<Longrightarrow>
   unique_ids (fst (insert_one generated coll d))"
  by (simp add: unique_ids_def insert_one_def)

lemma unique_ids_update_one: "unique_ids coll \<Longrightarrow> unique_ids (fst (update_one i upd coll))"
  by (simp add: unique_ids_def ids_update_one)

lemma unique_ids_delete_one: "unique_ids coll \<Longrightarrow> unique_ids (fst (delete_one i coll))"
  by (simp add: unique_ids_def ids_delete_one)

section \<open>list-all\<close>

lemma expiration_key_serialize:
  "expiration_key (serialize_announcement str d) = expiration_key d"
  by (simp add: expiration_key_def entries_serialize)

lemma mset_sort_expiration_desc: "mset (sort_expiration_desc coll) = mset coll"
  by (simp add: sort_expiration_desc_def)

lemma sorted_sort_expiration_desc:
  "sorted_wrt (\<lambda>a b. expiration_key b \<le> expiration_key a) (sort_expiration_desc coll)"
proof -
  have "sorted_wrt (\<lambda>a b. expiration_key a \<le> expiration_key b) (sort_key expiration_key coll)"
    using sorted_sort_key [of expiration_key coll] by (simp add: sorted_map)
  then show ?thesis
    by (simp add: sort_expiration_desc_def sorted_wrt_rev)
qed

text \<open>
  C8. For every call to list-all with a resolvable username: the result is the
  serialization of every record of the collection (as a multiset: each record once,
  expired and future ones included), ordered by \<open>expiration_date\<close> descending in
  lexical order, with status 200.
\<close>

theorem list_all_sorted:
  assumes "teacher_username = Some u" and "u \<noteq> []" and "teachers u = Some t"
  shows
    "get_all_announcements str teachers coll teacher_username
       = Inr (map (serialize_announcement str) (sort_expiration_desc coll))
     \<and> http_status GET_all (get_all_announcements str teachers coll teacher_username) = 200
     \<and> mset (map (serialize_announcement str) (sort_expiration_desc coll))
         = image_mset (serialize_announcement str) (mset coll)
     \<and> sorted_wrt (\<lambda>a b. expiration_key b \<le> expiration_key a)
          (map (serialize_announcement str) (sort_expiration_desc coll))"
proof -
  have "get_all_announcements str teachers coll teacher_username
          = Inr (map (serialize_announcement str) (sort_expiration_desc coll))"
    using assms by (simp add: get_all_announcements_def)
  moreover have "sorted_wrt (\<lambda>a b. expiration_key b \<le> expiration_key a)
          (map (serialize_announcement str) (sort_expiration_desc coll))"
    using sorted_sort_expiration_desc [of coll]
    by (simp add: sorted_wrt_map expiration_key_serialize)
  ultimately show ?thesis
    by (simp add: mset_sort_expiration_desc)
qed

theorem list_all_sorted_witness:
  "get_all_announcements hex_str staff board (Some ''mchen'')
     = Inr [\<lparr>doc_id = None,
             entries = [(''message'', Str ''Trip''),
                        (''expiration_date'', Str ''2031-01-01T00:00:00''),
                        (''start_date'', Str ''2029-01-01T00:00:00''),
                        (''id'', Str ''507f1f77bcf86cd799439013'')]\<rparr>,
            \<lparr>doc_id = None,
             entries = [(''message'', Str ''Exams''),
                        (''expiration_date'', Str ''2030-01-01T00:00:00''),
                        (''start_date'', Null),
                        (''id'', Str ''507f1f77bcf86cd799439011'')]\<rparr>,
            \<lparr>doc_id = None,
             entries = [(''message'', Str ''Fair''),
                        (''expiration_date'', Str ''2020-06-30T00:00:00''),
                        (''start_date'', Null),
                        (''id'', Str ''507f1f77bcf86cd799439012'')]\<rparr>]"
proof -
  have h: "staff ''mchen'' = Some ()" by (simp add: staff_def)
  have "map (serialize_announcement hex_str) (sort_expiration_desc board)
     = [\<lparr>doc_id = None,
             entries = [(''message'', Str ''Trip''),
                        (''expiration_date'', Str ''2031-01-01T00:00:00''),
                        (''start_date'', Str ''2029-01-01T00:00:00''),
                        (''id'', Str ''507f1f77bcf86cd799439013'')]\<rparr>,
            \<lparr>doc_id = None,
             entries = [(''message'', Str ''Exams''),
                        (''expiration_date'', Str ''2030-01-01T00:00:00''),
                        (''start_date'', Null),
                        (''id'', Str ''507f1f77bcf86cd799439011'')]\<rparr>,
            \<lparr>doc_id = None,
             entries = [(''message'', Str ''Fair''),
                        (''expiration_date'', Str ''2020-06-30T00:00:00''),
                        (''start_date'', Null),
                        (''id'', Str ''507f1f77bcf86cd799439012'')]\<rparr>]"
    by (simp add: sort_expiration_desc_def expiration_key_def board_def
          serialize_announcement_def hex_str_def)
  with list_all_sorted [where teacher_username = "Some ''mchen''" and u = "''mchen''"
      and t = "()" and teachers = staff and str = hex_str and coll = board] h
  show ?thesis by simp
qed

section \<open>Round trip\<close>

lemma kept_update_one:
  "d \<in> set coll \<Longrightarrow> doc_id d \<noteq> Some j \<Longrightarrow> d \<in> set (fst (update_one j upd coll))"
  by (induction coll) (auto split: prod.splits)

lemma kept_delete_one:
  "d \<in> set coll \<Longrightarrow> doc_id d \<noteq> Some j \<Longrightarrow> d \<in> set (fst (delete_one j coll))"
  by (induction coll) (auto split: prod.splits)

lemma kept_create:
  "d \<in> set coll \<Longrightarrow>
   d \<in> set (snd (create_announcement fromisoformat str teachers now generated coll message
                   expiration_date start_date teacher_username))"
  by (simp add: create_announcement_def insert_one_def split: option.split)

lemma kept_update:
  assumes "d \<in> set coll" and "doc_id d = Some i" and "ObjectId announcement_id \<noteq> Some i"
  shows "d \<in> set (snd (update_announcement fromisoformat ObjectId str teachers now
                         driver_raises coll announcement_id message expiration_date
                         start_date teacher_username))"
proof (cases "ObjectId announcement_id")
  case None
  with assms(1) show ?thesis
    by (simp add: update_announcement_def split: option.split)
next
  case (Some j)
  with assms have "d \<in> set (fst (update_one j upd coll))" for upd
    by (intro kept_update_one) auto
  with Some assms(1) show ?thesis
    by (simp add: update_announcement_def case_prod_beta split: option.split)
qed

lemma kept_delete:
  assumes "d \<in> set coll" and "doc_id d = Some i" and "ObjectId announcement_id \<noteq> Some i"
  shows "d \<in> set (snd (delete_announcement ObjectId teachers driver_raises coll
                         announcement_id teacher_username))"
proof (cases "ObjectId announcement_id")
  case None
  with assms(1) show ?thesis
    by (simp add: delete_announcement_def split: option.split)
next
  case (Some j)
  with assms have "d \<in> set (fst (delete_one j coll))"
    by (intro kept_delete_one) auto
  with Some assms(1) show ?thesis
    by (simp add: delete_announcement_def case_prod_beta split: option.split)
qed

lemma kept_after_call:
  "d \<in> set coll \<Longrightarrow> doc_id d = Some i \<Longrightarrow> \<not> touches ObjectId i c \<Longrightarrow>
   d \<in> set (after_call fromisoformat ObjectId str teachers c coll)"
  by (cases c) (simp_all add: kept_create kept_update kept_delete)

lemma kept_after_calls:
  "d \<in> set coll \<Longrightarrow> doc_id d = Some i \<Longrightarrow> \<forall>c \<in> set calls. \<not> touches ObjectId i c \<Longrightarrow>
   d \<in> set (fold (after_call fromisoformat ObjectId str teachers) calls coll)"
  by (induction calls arbitrary: coll) (simp_all add: kept_after_call)

lemma create_success:
  assumes "create_announcement fromisoformat str teachers now generated coll message
             expiration_date start_date teacher_username = (Inr r, coll1)"
  shows "r = \<lparr>doc_id = None,
              entries = [(''message'', Str message),
                         (''expiration_date'', Str expiration_date),
                         (''start_date'', opt_val start_date),
                         (''created_by'', Str (the teacher_username)),
                         (''created_at'', Str now),
                         (''id'', Str (str generated))]\<rparr>
         \<and> coll1 = coll @ [\<lparr>doc_id = Some generated,
                             entries = [(''message'', Str message),
                                        (''expiration_date'', Str expiration_date),
                                        (''start_date'', opt_val start_date),
                                        (''created_by'', Str (the teacher_username)),
                                        (''created_at'', Str now)]\<rparr>]"
  using assms
  by (auto simp: create_announcement_def insert_one_def split: option.splits if_splits)

text \<open>
  C9. After a successful create, and any sequence of further creates, updates and
  deletes none of which is an update or delete of the created record, list-all with a
  resolvable username contains the very record that create returned: the same \<open>id\<close>,
  message, expiration date and start date.
\<close>

theorem round_trip:
  assumes "create_announcement fromisoformat str teachers now generated coll message
             expiration_date start_date teacher_username = (Inr r, coll1)"
    and "\<forall>c \<in> set calls. \<not> touches ObjectId generated c"
    and "coll2 = fold (after_call fromisoformat ObjectId str teachers) calls coll1"
    and "reader = Some u" and "u \<noteq> []" and "teachers u = Some t"
  shows
    "get_all_announcements str teachers coll2 reader
       = Inr (map (serialize_announcement str) (sort_expiration_desc coll2))
     \<and> r \<in> set (map (serialize_announcement str) (sort_expiration_desc coll2))
     \<and> dict_get r ''id'' = Str (str generated)
     \<and> dict_get r ''message'' = Str message
     \<and> dict_get r ''expiration_date'' = Str expiration_date
     \<and> dict_get r ''start_date'' = opt_val start_date"
proof -
  define d where "d = \<lparr>doc_id = Some generated,
                         entries = [(''message'', Str message),
                                    (''expiration_date'', Str expiration_date),
                                    (''start_date'', opt_val start_date),
                                    (''created_by'', Str (the teacher_username)),
                                    (''created_at'', Str now)]\<rparr>"
  from create_success [OF assms(1)]
  have r: "r = \<lparr>doc_id = None,
                 entries = [(''message'', Str message),
                            (''expiration_date'', Str expiration_date),
                            (''start_date'', opt_val start_date),
                            (''created_by'', Str (the teacher_username)),
                            (''created_at'', Str now),
                            (''id'', Str (str generated))]\<rparr>"
    and coll1: "coll1 = coll @ [d]"
    by (simp_all add: d_def)
  have d: "d \<in> set coll1" "doc_id d = Some generated" "serialize_announcement str d = r"
    by (simp_all add: coll1 r d_def serialize_announcement_def)
  from d(1,2) assms(2) have "d \<in> set coll2"
    unfolding assms(3) by (rule kept_after_calls)
  then have "d \<in> set (sort_expiration_desc coll2)"
    by (simp add: sort_expiration_desc_def)
  with d(3) have "r \<in> set (map (serialize_announcement str) (sort_expiration_desc coll2))"
    by auto
  moreover have "get_all_announcements str teachers coll2 reader
       = Inr (map (serialize_announcement str) (sort_expiration_desc coll2))"
    using assms(4-6) by (simp add: get_all_announcements_def)
  moreover have "dict_get r ''id'' = Str (str generated)"
    "dict_get r ''message'' = Str message"
    "dict_get r ''expiration_date'' = Str expiration_date"
    "dict_get r ''start_date'' = opt_val start_date"
    by (simp_all add: r dict_get_def)
  ultimately show ?thesis by simp
qed

theorem round_trip_witness:
  "\<lparr>doc_id = None,
    entries = [(''message'', Str ''Hello''),
               (''expiration_date'', Str ''2099-01-01T00:00:00Z''),
               (''start_date'', Null),
               (''created_by'', Str ''mchen''),
               (''created_at'', Str ''2026-11-04T12:28:00''),
               (''id'', Str ''507f1f77bcf86cd799439014'')]\<rparr>
   \<in> set (map (serialize_announcement hex_str)
            (sort_expiration_desc
               (fold (after_call basic_fromisoformat hex_ObjectId hex_str staff)
                  [Delete_call False ''507f1f77bcf86cd799439012'' (Some ''mchen''),
                   Update_call ''2026-11-05T08:00:00'' False ''507f1f77bcf86cd799439011''
                     ''Exams moved'' ''2030-02-01T00:00:00'' None (Some ''mchen'')]
                  (board @
                   [\<lparr>doc_id = Some ''507f1f77bcf86cd799439014'',
                     entries = [(''message'', Str ''Hello''),
                                (''expiration_date'', Str ''2099-01-01T00:00:00Z''),
                                (''start_date'', Null),
                                (''created_by'', Str ''mchen''),
                                (''created_at'', Str ''2026-11-04T12:28:00'')]\<rparr>]))))"
proof -
  let ?r = "\<lparr>doc_id = None :: string option,
    entries = [(''message'', Str ''Hello''),
               (''expiration_date'', Str ''2099-01-01T00:00:00Z''),
               (''start_date'', Null),
               (''created_by'', Str ''mchen''),
               (''created_at'', Str ''2026-11-04T12:28:00''),
               (''id'', Str ''507f1f77bcf86cd799439014'')]\<rparr>"
  let ?coll1 = "board @
                   [\<lparr>doc_id = Some ''507f1f77bcf86cd799439014'',
                     entries = [(''message'', Str ''Hello''),
                                (''expiration_date'', Str ''2099-01-01T00:00:00Z''),
                                (''start_date'', Null),
                                (''created_by'', Str ''mchen''),
                                (''created_at'', Str ''2026-11-04T12:28:00'')]\<rparr>]"
  let ?calls = "[Delete_call False ''507f1f77bcf86cd799439012'' (Some ''mchen''),
                   Update_call ''2026-11-05T08:00:00'' False ''507f1f77bcf86cd799439011''
                     ''Exams moved'' ''2030-02-01T00:00:00'' None (Some ''mchen'')]"
  have created: "create_announcement basic_fromisoformat hex_str staff
      ''2026-11-04T12:28:00'' ''507f1f77bcf86cd799439014'' board ''Hello''
      ''2099-01-01T00:00:00Z'' None (Some ''mchen'') = (Inr ?r, ?coll1)"
    by (simp add: create_announcement_def insert_one_def staff_def
          basic_fromisoformat_def replace_Z_def hex_str_def)
  have untouched: "\<forall>c \<in> set ?calls. \<not> touches hex_ObjectId ''507f1f77bcf86cd799439014'' c"
    by (simp add: hex_ObjectId_def)
  have reader: "staff ''mchen'' = Some ()" "''mchen'' \<noteq> []"
    by (simp_all add: staff_def)
  from round_trip [OF created untouched refl refl reader(2,1)]
  show ?thesis by simp
qed

end
